theory Spec2Isabelle
  imports Main "HOL-Library.Multiset"
begin

section \<open>Text: Python strings as lists of Unicode code points\<close>

text \<open>
  A Python \<open>str\<close> is a sequence of Unicode code points, and the sanitizer looks at
  characters beyond Latin-1 (\<open>U+0152\<close>, \<open>U+0153\<close>), so a character is a natural number
  here and a string a list of them. \<open>ustr\<close> embeds an ASCII literal.
\<close>

type_synonym uchar = nat
type_synonym ustring = "uchar list"

definition ustr :: "string \<Rightarrow> ustring" where
  "ustr s = map of_char s"

definition slash :: uchar where
  "slash = 0x2F"

definition dquote :: uchar where
  "dquote = 0x22"

text \<open>\<open>str(n)\<close> for a non-negative Python integer.\<close>

fun string_of_nat :: "nat \<Rightarrow> ustring" where
  "string_of_nat n =
     (if n < 10 then [0x30 + n] else string_of_nat (n div 10) @ [0x30 + n mod 10])"

declare string_of_nat.simps [simp del]

subsection \<open>The character tables of \<open>account_journal.py\<close>\<close>

definition SWEDBANK_LATIN_CHARS :: "uchar set" where
  "SWEDBANK_LATIN_CHARS = set (ustr
     (''abcdefghijklmnopqrstuvwxyz'' @
      ''ABCDEFGHIJKLMNOPQRSTUVWXYZ'' @
      ''0123456789'' @
      ''/-?:().,'' @ [CHR 0x27] @ ''+ ''))"

text \<open>The six letters a-ring, A-ring, a-diaeresis, A-diaeresis, o-diaeresis, O-diaeresis.\<close>

definition SWEDISH_LOCAL_CHARS :: "uchar set" where
  "SWEDISH_LOCAL_CHARS = set [0xE5, 0xC5, 0xE4, 0xC4, 0xF6, 0xD6]"

text \<open>
  The dict \<open>CHAR_REPLACEMENT_MAP\<close>, in the order of the source; its keys are
  one-character strings, written by code point.
\<close>

definition CHAR_REPLACEMENT_MAP :: "(ustring \<times> ustring) list" where
  "CHAR_REPLACEMENT_MAP =
    [([0xE0], ustr ''a''), ([0xE1], ustr ''a''), ([0xE2], ustr ''a''), ([0xE3], ustr ''a''),
     ([0xE4], ustr ''a''), ([0xE6], ustr ''ae''),
     ([0xE7], ustr ''c''), ([0xE8], ustr ''e''), ([0xE9], ustr ''e''), ([0xEA], ustr ''e''),
     ([0xEB], ustr ''e''),
     ([0xEC], ustr ''i''), ([0xED], ustr ''i''), ([0xEE], ustr ''i''), ([0xEF], ustr ''i''),
     ([0xF1], ustr ''n''), ([0xF2], ustr ''o''), ([0xF3], ustr ''o''), ([0xF4], ustr ''o''),
     ([0xF5], ustr ''o''), ([0xF6], ustr ''o''), ([0xF8], ustr ''o''),
     ([0xF9], ustr ''u''), ([0xFA], ustr ''u''), ([0xFB], ustr ''u''), ([0xFC], ustr ''u''),
     ([0xFD], ustr ''y''), ([0xFF], ustr ''y''),
     ([0xDF], ustr ''ss''), ([0x153], ustr ''oe''),
     ([0xC0], ustr ''A''), ([0xC1], ustr ''A''), ([0xC2], ustr ''A''), ([0xC3], ustr ''A''),
     ([0xC4], ustr ''A''), ([0xC6], ustr ''AE''),
     ([0xC7], ustr ''C''), ([0xC8], ustr ''E''), ([0xC9], ustr ''E''), ([0xCA], ustr ''E''),
     ([0xCB], ustr ''E''),
     ([0xCC], ustr ''I''), ([0xCD], ustr ''I''), ([0xCE], ustr ''I''), ([0xCF], ustr ''I''),
     ([0xD1], ustr ''N''), ([0xD2], ustr ''O''), ([0xD3], ustr ''O''), ([0xD4], ustr ''O''),
     ([0xD5], ustr ''O''), ([0xD6], ustr ''O''), ([0xD8], ustr ''O''),
     ([0xD9], ustr ''U''), ([0xDA], ustr ''U''), ([0xDB], ustr ''U''), ([0xDC], ustr ''U''),
     ([0xDD], ustr ''Y''),
     ([0x152], ustr ''OE'')]"

subsection \<open>The Python built-ins the sanitizer calls\<close>

text \<open>
  \<open>str.lower\<close>, \<open>str.isupper\<close> and \<open>str.upper\<close> belong to Python, not to the
  repository. They are written out on the letters that matter to the sanitizer: the
  ASCII letters, the Latin-1 letters, and the three letters outside Latin-1 whose
  lower case is a key of the table (\<open>U+0152\<close>, \<open>U+0178\<close>, \<open>U+1E9E\<close>). No other
  character of Unicode has a key of the table as its lower case, so on every other
  character the third branch of the sanitizer is not taken, whatever \<open>lower\<close> returns;
  the model returns the character itself there. \<open>upper\<close> is applied to values of
  the table, which are ASCII, and to account numbers; it is written out on the ASCII
  letters and leaves every other character as it is.
\<close>

definition py_lower :: "uchar \<Rightarrow> ustring" where
  "py_lower c =
     (if 0x41 \<le> c \<and> c \<le> 0x5A then [c + 0x20]
      else if 0xC0 \<le> c \<and> c \<le> 0xDE \<and> c \<noteq> 0xD7 then [c + 0x20]
      else if c = 0x152 then [0x153]
      else if c = 0x178 then [0xFF]
      else if c = 0x1E9E then [0xDF]
      else [c])"

definition py_isupper :: "uchar \<Rightarrow> bool" where
  "py_isupper c \<longleftrightarrow>
     (0x41 \<le> c \<and> c \<le> 0x5A) \<or> (0xC0 \<le> c \<and> c \<le> 0xDE \<and> c \<noteq> 0xD7)
     \<or> c = 0x152 \<or> c = 0x178 \<or> c = 0x1E9E"

definition py_upper :: "ustring \<Rightarrow> ustring" where
  "py_upper s = map (\<lambda>c. if 0x61 \<le> c \<and> c \<le> 0x7A then c - 0x20 else c) s"

text \<open>\<open>'//' in s\<close>.\<close>

fun contains_dslash :: "ustring \<Rightarrow> bool" where
  "contains_dslash (a # b # xs) = ((a = slash \<and> b = slash) \<or> contains_dslash (b # xs))"
| "contains_dslash xs = False"

text \<open>\<open>s.replace('//', '/')\<close>: the occurrences are replaced from the left, without overlap.\<close>

fun replace_dslash :: "ustring \<Rightarrow> ustring" where
  "replace_dslash (a # b # xs) =
     (if a = slash \<and> b = slash then slash # replace_dslash xs
      else a # replace_dslash (b # xs))"
| "replace_dslash xs = xs"

text \<open>\<open>s.strip('/')\<close>.\<close>

definition strip_slash :: "ustring \<Rightarrow> ustring" where
  "strip_slash s =
     rev (dropWhile (\<lambda>c. c = slash) (rev (dropWhile (\<lambda>c. c = slash) s)))"

text \<open>\<open>s.startswith('/')\<close> and \<open>s.endswith('/')\<close>.\<close>

definition startswith_slash :: "ustring \<Rightarrow> bool" where
  "startswith_slash s = (case s of [] \<Rightarrow> False | c # _ \<Rightarrow> c = slash)"

definition endswith_slash :: "ustring \<Rightarrow> bool" where
  "endswith_slash s = startswith_slash (rev s)"

section \<open>The sanitizer (\<open>_swedbank_sanitize_text\<close>, \<open>_swedbank_sanitize_id\<close>)\<close>

text \<open>
  The loop \<open>while '//' in sanitized: sanitized = sanitized.replace('//', '/')\<close>.
  Each round shortens the string, which is the termination argument.
\<close>

function collapse_slashes :: "ustring \<Rightarrow> ustring" where
  "collapse_slashes s =
     (if contains_dslash s then collapse_slashes (replace_dslash s) else s)"
  by pat_completeness auto
termination
proof (relation "measure length")
  show "wf (measure length)" by simp
next
  fix s :: ustring
  assume c: "contains_dslash s"
  have le: "length (replace_dslash t) \<le> length t" for t
    by (induction t rule: replace_dslash.induct) auto
  have lt: "contains_dslash t \<Longrightarrow> length (replace_dslash t) < length t" for t
  proof (induction t rule: replace_dslash.induct)
    case (1 a b xs)
    show ?case
    proof (cases "a = slash \<and> b = slash")
      case True
      then show ?thesis using le [of xs] by simp
    next
      case False
      with 1 show ?thesis by auto
    qed
  qed simp_all
  from lt [OF c] show "(replace_dslash s, s) \<in> measure length" by simp
qed

declare collapse_slashes.simps [simp del]

text \<open>
  One round of the loop \<open>for char in text\<close>: what is appended to \<open>result\<close> for one
  character. The three branches are those of the source, in its order; a character that
  takes none of them is dropped.
\<close>

definition sanitize_char :: "bool \<Rightarrow> uchar \<Rightarrow> ustring" where
  "sanitize_char allow_swedish c =
     (let allowed_chars =
            (if allow_swedish then SWEDBANK_LATIN_CHARS \<union> SWEDISH_LOCAL_CHARS
             else SWEDBANK_LATIN_CHARS)
      in if c \<in> allowed_chars then [c]
         else (case map_of CHAR_REPLACEMENT_MAP [c] of
                 Some r \<Rightarrow> r
               | None \<Rightarrow>
                   (case map_of CHAR_REPLACEMENT_MAP (py_lower c) of
                      Some replacement \<Rightarrow>
                        (if py_isupper c then py_upper replacement else replacement)
                    | None \<Rightarrow> [])))"

text \<open>
  \<open>max_length\<close> is a length: the callers pass 140, 70, 35 and 16, and the slice
  \<open>sanitized[:max_length]\<close> is \<open>take\<close>.
\<close>

definition swedbank_sanitize_text :: "ustring \<Rightarrow> nat \<Rightarrow> bool \<Rightarrow> ustring" where
  "swedbank_sanitize_text text max_length allow_swedish =
     (if text = [] then []
      else take max_length
             (collapse_slashes (concat (map (sanitize_char allow_swedish) text))))"

definition swedbank_sanitize_id :: "ustring \<Rightarrow> nat \<Rightarrow> ustring" where
  "swedbank_sanitize_id text max_length =
     (if text = [] then []
      else take max_length
             (collapse_slashes
                (strip_slash (swedbank_sanitize_text text max_length False))))"

section \<open>The records of the host\<close>

text \<open>
  The journal, the payments, the partners and their bank accounts are records of the
  host (Odoo); the code only reads their fields. A \<open>Char\<close> or \<open>Selection\<close> field
  that is not set reads as \<open>False\<close>, which is the empty string here (the host never
  stores an empty string); a many-to-one field that is not set is \<open>None\<close>. An amount
  is a decimal with two digits after the point and is held as its number of hundredths,
  so \<open>1000.00\<close> is \<open>100000\<close>; the binary rounding of Python floats is not modelled.
  A date is held as the text \<open>str\<close> gives for it.
\<close>

record res_currency =
  cur_name :: ustring

record res_country =
  country_code :: ustring

record res_bank =
  bank_bic :: ustring
  bank_country :: "res_country option"

record res_partner_bank =
  pb_id :: nat
  pb_acc_number :: ustring
  pb_acc_type :: ustring
  pb_bank_id :: "res_bank option"
  pb_currency_id :: "res_currency option"
  pb_swedbank_clearing_code :: ustring
  pb_swedbank_account_type :: ustring

record res_partner =
  partner_name :: ustring
  partner_street :: ustring
  partner_zip :: ustring
  partner_city :: ustring
  partner_country_id :: "res_country option"

record res_company =
  company_ident :: nat
  company_name :: ustring
  company_country_id :: "res_country option"
  company_street :: ustring
  company_city :: ustring
  company_zip :: ustring
  company_currency_id :: res_currency

record account_payment =
  pay_id :: nat
  pay_name :: ustring
  pay_partner_id :: "res_partner option"
  pay_amount :: int
  pay_currency_id :: res_currency
  pay_date :: "ustring option"
  pay_ref :: ustring
  pay_memo :: ustring
  pay_partner_bank_id :: "res_partner_bank option"
  pay_swedbank_end_to_end_id :: ustring
  pay_swedbank_service_level :: ustring
  pay_swedbank_category_purpose :: ustring

record account_journal =
  jrn_id :: nat
  jrn_name :: ustring
  jrn_swedbank_agreement_id :: ustring
  jrn_bank_account_id :: "res_partner_bank option"
  jrn_swedbank_service_level :: ustring
  jrn_swedbank_category_purpose :: ustring
  jrn_swedbank_charge_bearer :: ustring
  jrn_company_id :: res_company
  jrn_currency_id :: "res_currency option"

record account_batch_payment =
  batch_journal_id :: account_journal
  batch_payment_ids :: "account_payment list"

text \<open>What raises in the source is a value here.\<close>

datatype error = UserError ustring | ValidationError ustring | IndexError

text \<open>\<open>a or b\<close> on strings, and \<open>'%s' % f\<close> for a text field \<open>f\<close>.\<close>

definition py_or :: "ustring \<Rightarrow> ustring \<Rightarrow> ustring" where
  "py_or a b = (if a = [] then b else a)"

definition pct_s :: "ustring \<Rightarrow> ustring" where
  "pct_s f = (if f = [] then ustr ''False'' else f)"

text \<open>
  \<open>'%.2f' % x\<close> for an amount of \<open>n\<close> hundredths, and the reading of such a text
  back as a number of hundredths (used to state what a document says).
\<close>

definition fmt2 :: "int \<Rightarrow> ustring" where
  "fmt2 n =
     (let k = nat \<bar>n\<bar>;
          body = string_of_nat (k div 100) @ ustr ''.'' @ [0x30 + (k mod 100) div 10, 0x30 + k mod 10]
      in if n < 0 then ustr ''-'' @ body else body)"

definition is_digit :: "uchar \<Rightarrow> bool" where
  "is_digit c \<longleftrightarrow> 0x30 \<le> c \<and> c \<le> 0x39"



text \<open>\<open>s.isdigit()\<close>, on the ASCII digits.\<close>

definition py_isdigit :: "ustring \<Rightarrow> bool" where
  "py_isdigit s \<longleftrightarrow> s \<noteq> [] \<and> list_all is_digit s"

text \<open>\<open>s.replace(' ', '')\<close>, \<open>s.replace('-', '')\<close> and \<open>s.upper()\<close>.\<close>

definition remove_char :: "uchar \<Rightarrow> ustring \<Rightarrow> ustring" where
  "remove_char c s = filter (\<lambda>x. x \<noteq> c) s"

text \<open>\<open>str(uuid.uuid4())\<close> for the 128 bits drawn: 32 hexadecimal digits in groups of 8-4-4-4-12.\<close>

primrec hex_digits :: "nat \<Rightarrow> nat \<Rightarrow> ustring" where
  "hex_digits 0 n = []"
| "hex_digits (Suc k) n =
     hex_digits k (n div 16) @ [if n mod 16 < 10 then 0x30 + n mod 16 else 0x57 + n mod 16]"

definition uuid_str :: "nat \<Rightarrow> ustring" where
  "uuid_str n =
     (let h = hex_digits 32 (n mod 2 ^ 128)
      in take 8 h @ ustr ''-'' @ take 4 (drop 8 h) @ ustr ''-'' @ take 4 (drop 12 h) @
         ustr ''-'' @ take 4 (drop 16 h) @ ustr ''-'' @ drop 20 h)"

section \<open>The element tree\<close>

text \<open>
  An \<open>lxml\<close> element: tag, attributes, text and children. The value the builder returns
  is the XML declaration followed by the serialized tree; it is held here as the
  declaration, the namespace map of the root and the tree.
\<close>

datatype xml = Elem (xml_tag: string) (xml_attrib: "(string \<times> ustring) list")
  (xml_text: "ustring option") (xml_children: "xml list")

datatype document = Document (doc_declaration: ustring)
  (doc_nsmap: "(string option \<times> ustring) list") (doc_root: xml)

definition leaf :: "string \<Rightarrow> ustring \<Rightarrow> xml" where
  "leaf t s = Elem t [] (Some s) []"

definition node :: "string \<Rightarrow> xml list \<Rightarrow> xml" where
  "node t cs = Elem t [] None cs"

text \<open>The elements reached from \<open>e\<close> by a path of child tags, in document order.\<close>

fun findall :: "string list \<Rightarrow> xml \<Rightarrow> xml list" where
  "findall [] e = [e]"
| "findall (t # ts) e =
     concat (map (findall ts) (filter (\<lambda>c. xml_tag c = t) (xml_children e)))"

section \<open>What the code reads from outside\<close>

text \<open>
  The clock, the random source and the schema file are inputs. \<open>env_now_compact k\<close>
  and \<open>env_now_iso k\<close> are the two renderings the code asks of the \<open>k\<close>-th reading of
  \<open>datetime.now()\<close> within one generation; \<open>env_uuid4 i\<close> is the number
  \<open>uuid.uuid4()\<close> draws at its \<open>i\<close>-th use; \<open>env_today\<close> is \<open>fields.Date.today()\<close>.
  A compiled schema answers \<open>validate\<close> and keeps an error log.
\<close>

record xml_schema =
  schema_validate :: "document \<Rightarrow> bool"
  schema_error_log :: "document \<Rightarrow> ustring list"

record env =
  env_now_compact :: "nat \<Rightarrow> ustring"
  env_now_iso :: "nat \<Rightarrow> ustring"
  env_today :: ustring
  env_uuid4 :: "nat \<Rightarrow> nat"
  env_xsd_exists :: bool
  env_xsd_load :: "xml_schema option"
  env_fromstring_error :: "document \<Rightarrow> ustring option"

section \<open>The account classifier (\<open>res_partner_bank.py\<close>)\<close>

text \<open>
  \<open>_compute_swedbank_account_type\<close>: the value the compute method gives the stored
  field \<open>swedbank_account_type\<close>. The two regular expressions \<open>^[0-9]{7,8}$\<close> and
  \<open>^[0-9]{1,10}$\<close> are written out as \<open>digits_between\<close>; with \<open>re.match\<close> the
  \<open>$\<close> also matches before one final newline.
\<close>

definition digits_between :: "nat \<Rightarrow> nat \<Rightarrow> ustring \<Rightarrow> bool" where
  "digits_between lo hi s =
     (let body = (if s \<noteq> [] \<and> last s = 0x0A then butlast s else s)
      in lo \<le> length body \<and> length body \<le> hi \<and> list_all is_digit body)"

definition compute_swedbank_account_type :: "res_partner_bank \<Rightarrow> ustring" where
  "compute_swedbank_account_type bank =
     (if pb_acc_type bank = ustr ''iban'' then ustr ''iban''
      else if pb_acc_number bank \<noteq> [] then
        (let acc = remove_char 0x2D (remove_char 0x20 (pb_acc_number bank))
         in if digits_between 7 8 acc \<and> pb_swedbank_clearing_code bank = [] then ustr ''bankgiro''
            else if digits_between 1 10 acc \<and> pb_swedbank_clearing_code bank = ustr ''9960''
            then ustr ''plusgiro''
            else ustr ''bban'')
      else [])"

text \<open>A bank account whose stored type is the one the compute method gives it.\<close>

definition recompute_account_type :: "res_partner_bank \<Rightarrow> res_partner_bank" where
  "recompute_account_type bank =
     bank\<lparr>pb_swedbank_account_type := compute_swedbank_account_type bank\<rparr>"

text \<open>\<open>_get_swedbank_creditor_agent_clearing\<close>: clearing system and member.\<close>

definition get_swedbank_creditor_agent_clearing ::
    "res_partner_bank \<Rightarrow> ustring option \<times> ustring option" where
  "get_swedbank_creditor_agent_clearing bank =
     (if pb_swedbank_account_type bank = ustr ''bankgiro'' then (Some (ustr ''SESBA''), Some (ustr ''9900''))
      else if pb_swedbank_account_type bank = ustr ''plusgiro''
      then (Some (ustr ''SESBA''), Some (ustr ''9960''))
      else if pb_swedbank_clearing_code bank \<noteq> []
      then (Some (ustr ''SESBA''), Some (pb_swedbank_clearing_code bank))
      else (None, None))"

section \<open>The payment validators\<close>

text \<open>
  \<open>_swedbank_validate_payments\<close> of the journal, which the document builder calls.
  The loop stops at the first payment that breaks a rule.
\<close>

definition msg_no_partner :: "ustring \<Rightarrow> ustring" where
  "msg_no_partner name = ustr ''Payment '' @ [dquote] @ pct_s name @ [dquote] @ ustr '' has no partner defined.''"

definition msg_invalid_amount :: "ustring \<Rightarrow> ustring" where
  "msg_invalid_amount name =
     ustr ''Payment '' @ [dquote] @ pct_s name @ [dquote] @
     ustr '' has invalid amount. Amount must be positive.''"

definition msg_sepa_currency :: "ustring \<Rightarrow> ustring \<Rightarrow> ustring" where
  "msg_sepa_currency name cur =
     ustr ''SEPA Credit Transfer requires EUR currency. Payment '' @ [dquote] @ pct_s name @
     [dquote] @ ustr '' uses '' @ pct_s cur @ ustr ''.''"

fun swedbank_validate_payments :: "account_journal \<Rightarrow> account_payment list \<Rightarrow> error + unit" where
  "swedbank_validate_payments self [] = Inr ()"
| "swedbank_validate_payments self (payment # rest) =
     (if pay_partner_id payment = None then Inl (UserError (msg_no_partner (pay_name payment)))
      else if pay_amount payment \<le> 0 then Inl (UserError (msg_invalid_amount (pay_name payment)))
      else if jrn_swedbank_service_level self = ustr ''SEPA''
              \<and> cur_name (pay_currency_id payment) \<noteq> ustr ''EUR''
      then Inl (UserError (msg_sepa_currency (pay_name payment) (cur_name (pay_currency_id payment))))
      else swedbank_validate_payments self rest)"

text \<open>
  \<open>_swedbank_validate_batch\<close> of the batch, which \<open>validate_batch\<close> calls: the same
  checks, and for a SEPA journal the IBAN check on the creditor account.
\<close>

definition msg_batch_no_partner :: "ustring \<Rightarrow> ustring" where
  "msg_batch_no_partner name =
     ustr ''Payment '' @ [dquote] @ pct_s name @ [dquote] @
     ustr '' has no partner. All Swedbank payments require a partner.''"

definition msg_sepa_iban :: "ustring \<Rightarrow> ustring" where
  "msg_sepa_iban name =
     ustr ''SEPA Credit Transfer requires IBAN. Partner bank account for payment '' @ [dquote] @
     pct_s name @ [dquote] @ ustr '' is not an IBAN.''"

fun swedbank_validate_batch_payments ::
    "account_journal \<Rightarrow> account_payment list \<Rightarrow> error + unit" where
  "swedbank_validate_batch_payments journal [] = Inr ()"
| "swedbank_validate_batch_payments journal (payment # rest) =
     (if pay_partner_id payment = None then Inl (UserError (msg_batch_no_partner (pay_name payment)))
      else if pay_amount payment \<le> 0 then Inl (UserError (msg_invalid_amount (pay_name payment)))
      else if jrn_swedbank_service_level journal = ustr ''SEPA''
              \<and> cur_name (pay_currency_id payment) \<noteq> ustr ''EUR''
      then Inl (UserError (msg_sepa_currency (pay_name payment) (cur_name (pay_currency_id payment))))
      else if jrn_swedbank_service_level journal = ustr ''SEPA''
              \<and> (case pay_partner_bank_id payment of
                    None \<Rightarrow> False
                  | Some bank \<Rightarrow> pb_acc_type bank \<noteq> ustr ''iban'')
      then Inl (UserError (msg_sepa_iban (pay_name payment)))
      else swedbank_validate_batch_payments journal rest)"

definition swedbank_validate_batch :: "account_batch_payment \<Rightarrow> error + unit" where
  "swedbank_validate_batch self =
     (if jrn_swedbank_agreement_id (batch_journal_id self) = []
      then Inl (UserError (ustr ''Swedbank Agreement ID is not configured on journal '' @ [dquote] @
                   pct_s (jrn_name (batch_journal_id self)) @ [dquote] @ ustr ''.''))
      else if jrn_bank_account_id (batch_journal_id self) = None
      then Inl (UserError (ustr ''Bank account is not configured on journal '' @ [dquote] @
                   pct_s (jrn_name (batch_journal_id self)) @ [dquote] @ ustr ''.''))
      else swedbank_validate_batch_payments (batch_journal_id self) (batch_payment_ids self))"

section \<open>Grouping (\<open>_swedbank_group_payments\<close>)\<close>

text \<open>
  The dict \<open>groups\<close> keeps its keys in insertion order, so it is an association list.
  \<open>groups[key] |= payment\<close> is the union of record sets, which leaves out a record
  that is already there.
\<close>

type_synonym group_key = "nat option \<times> ustring"

fun dict_set :: "'k \<Rightarrow> 'v \<Rightarrow> ('k \<times> 'v) list \<Rightarrow> ('k \<times> 'v) list" where
  "dict_set k v [] = [(k, v)]"
| "dict_set k v ((k', v') # rest) =
     (if k' = k then (k, v) # rest else (k', v') # dict_set k v rest)"

definition recordset_union :: "account_payment list \<Rightarrow> account_payment \<Rightarrow> account_payment list" where
  "recordset_union rs r = (if pay_id r \<in> pay_id ` set rs then rs else rs @ [r])"

definition group_step ::
    "env \<Rightarrow> account_journal \<Rightarrow> (group_key \<times> account_payment list) list \<Rightarrow> account_payment
      \<Rightarrow> (group_key \<times> account_payment list) list" where
  "group_step e self groups payment =
     (let exec_date = (case pay_date payment of Some d \<Rightarrow> d | None \<Rightarrow> env_today e);
          key = (map_option pb_id (jrn_bank_account_id self), exec_date);
          old = (case map_of groups key of None \<Rightarrow> [] | Some g \<Rightarrow> g)
      in dict_set key (recordset_union old payment) groups)"

definition swedbank_group_payments ::
    "env \<Rightarrow> account_journal \<Rightarrow> account_payment list \<Rightarrow> (group_key \<times> account_payment list) list" where
  "swedbank_group_payments e self payments = foldl (group_step e self) [] payments"

section \<open>The document builder (\<open>account_journal.py\<close>)\<close>

definition sum_amounts :: "account_payment list \<Rightarrow> int" where
  "sum_amounts payments = sum_list (map pay_amount payments)"

definition swedbank_get_grp_hdr :: "env \<Rightarrow> account_journal \<Rightarrow> account_payment list \<Rightarrow> xml" where
  "swedbank_get_grp_hdr e self payments =
     (let msg_id = swedbank_sanitize_id
            (ustr ''MSG-'' @ string_of_nat (company_ident (jrn_company_id self)) @ ustr ''-'' @
             env_now_compact e 0) 35;
          ctrl_sum = sum_amounts payments
      in node ''GrpHdr''
           [leaf ''MsgId'' msg_id,
            leaf ''CreDtTm'' (env_now_iso e 1),
            leaf ''NbOfTxs'' (string_of_nat (length payments)),
            leaf ''CtrlSum'' (fmt2 ctrl_sum),
            node ''InitgPty''
              [node ''Id''
                 [node ''OrgId''
                    [node ''Othr''
                       [leaf ''Id'' (jrn_swedbank_agreement_id self),
                        node ''SchmeNm'' [leaf ''Cd'' (ustr ''BANK'')]]]]]])"

text \<open>\<open>_swedbank_get_pmt_tp_inf\<close>: the payment is a parameter of the source, which does not read it.\<close>

definition swedbank_get_pmt_tp_inf :: "account_journal \<Rightarrow> account_payment \<Rightarrow> xml" where
  "swedbank_get_pmt_tp_inf self payment =
     (let service_level = py_or (jrn_swedbank_service_level self) (ustr ''NURG'');
          category_purpose = py_or (jrn_swedbank_category_purpose self) (ustr ''SUPP'')
      in node ''PmtTpInf''
           [node ''SvcLvl'' [leaf ''Cd'' service_level],
            node ''CtgyPurp'' [leaf ''Cd'' category_purpose]])"

definition swedbank_get_dbtr :: "account_journal \<Rightarrow> xml" where
  "swedbank_get_dbtr self =
     (let company = jrn_company_id self;
          name = swedbank_sanitize_text (company_name company) 140 True
      in node ''Dbtr''
           [leaf ''Nm'' name,
            node ''PstlAdr''
              ((case company_country_id company of
                  None \<Rightarrow> [] | Some c \<Rightarrow> [leaf ''Ctry'' (country_code c)]) @
               (if company_street company \<noteq> []
                then [leaf ''AdrLine'' (swedbank_sanitize_text (company_street company) 70 True)]
                else []) @
               (if company_city company \<noteq> []
                then [leaf ''TwnNm'' (swedbank_sanitize_text (company_city company) 35 True)]
                else []) @
               (if company_zip company \<noteq> []
                then [leaf ''PstCd'' (swedbank_sanitize_text (company_zip company) 16 True)]
                else []))])"

text \<open>The fields of an empty record set all read as \<open>False\<close>.\<close>

definition empty_partner_bank :: res_partner_bank where
  "empty_partner_bank =
     \<lparr>pb_id = 0, pb_acc_number = [], pb_acc_type = [], pb_bank_id = None, pb_currency_id = None,
      pb_swedbank_clearing_code = [], pb_swedbank_account_type = []\<rparr>"

definition empty_partner :: res_partner where
  "empty_partner =
     \<lparr>partner_name = [], partner_street = [], partner_zip = [], partner_city = [],
      partner_country_id = None\<rparr>"

definition swedbank_get_dbtr_acct :: "account_journal \<Rightarrow> xml" where
  "swedbank_get_dbtr_acct self =
     (let bank_account = (case jrn_bank_account_id self of None \<Rightarrow> empty_partner_bank | Some b \<Rightarrow> b);
          acct_id =
            (if pb_acc_type bank_account = ustr ''iban'' \<and> pb_acc_number bank_account \<noteq> []
             then node ''Id''
                    [leaf ''IBAN'' (py_upper (remove_char 0x20 (pb_acc_number bank_account)))]
             else
               (let acc_number = remove_char 0x2D (remove_char 0x20 (pb_acc_number bank_account))
                in node ''Id''
                     [node ''Othr''
                        [leaf ''Id'' acc_number,
                         node ''SchmeNm''
                           [if length acc_number \<le> 8 \<and> py_isdigit acc_number
                            then leaf ''Prtry'' (ustr ''BGNR'')
                            else leaf ''Cd'' (ustr ''BBAN'')]]]));
          ccy =
            (case pb_currency_id bank_account of
               Some c \<Rightarrow> cur_name c
             | None \<Rightarrow>
                 (case jrn_currency_id self of
                    Some c \<Rightarrow> cur_name c
                  | None \<Rightarrow> cur_name (company_currency_id (jrn_company_id self))))
      in node ''DbtrAcct'' [acct_id, leaf ''Ccy'' ccy])"

definition swedbank_get_dbtr_agt :: xml where
  "swedbank_get_dbtr_agt =
     node ''DbtrAgt''
       [node ''FinInstnId''
          [leaf ''BIC'' (ustr ''SWEDSESS''),
           node ''PstlAdr'' [leaf ''Ctry'' (ustr ''SE'')]]]"

text \<open>
  \<open>_swedbank_get_cdtr_agt\<close>. The bank account model of this module defines
  \<open>_get_swedbank_creditor_agent_clearing\<close>, so the \<open>hasattr\<close> test holds and the
  first branch is the one taken.
\<close>

definition swedbank_get_cdtr_agt :: "account_payment \<Rightarrow> xml option" where
  "swedbank_get_cdtr_agt payment =
     (case pay_partner_bank_id payment of
        None \<Rightarrow> None
      | Some partner_bank \<Rightarrow>
          (let bic = (case pb_bank_id partner_bank of
                        None \<Rightarrow> []
                      | Some b \<Rightarrow> if bank_bic b \<noteq> [] then [leaf ''BIC'' (bank_bic b)] else []);
               (clearing_system, clearing_member) = get_swedbank_creditor_agent_clearing partner_bank;
               clr = (case clearing_member of
                        None \<Rightarrow> []
                      | Some m \<Rightarrow>
                          if m \<noteq> []
                          then [node ''ClrSysMmbId''
                                  [node ''ClrSysId''
                                     [leaf ''Cd''
                                        (case clearing_system of
                                           None \<Rightarrow> ustr ''SESBA''
                                         | Some s \<Rightarrow> py_or s (ustr ''SESBA''))],
                                   leaf ''MmbId'' m]]
                          else []);
               partner = (case pay_partner_id payment of None \<Rightarrow> empty_partner | Some p \<Rightarrow> p);
               bank_ctry = (case pb_bank_id partner_bank of None \<Rightarrow> None | Some b \<Rightarrow> bank_country b);
               country =
                 (case bank_ctry of
                    Some c \<Rightarrow> country_code c
                  | None \<Rightarrow>
                      (case partner_country_id partner of
                         Some c \<Rightarrow> country_code c
                       | None \<Rightarrow> ustr ''SE''))
           in Some (node ''CdtrAgt''
                      [node ''FinInstnId''
                         (bic @ clr @ [node ''PstlAdr'' [leaf ''Ctry'' country]])])))"

definition swedbank_get_cdtr :: "account_payment \<Rightarrow> xml" where
  "swedbank_get_cdtr payment =
     (let partner = (case pay_partner_id payment of None \<Rightarrow> empty_partner | Some p \<Rightarrow> p);
          name = swedbank_sanitize_text (partner_name partner) 70 True
      in node ''Cdtr''
           [leaf ''Nm'' name,
            node ''PstlAdr''
              ((if partner_street partner \<noteq> []
                then [leaf ''StrtNm'' (swedbank_sanitize_text (partner_street partner) 35 True)]
                else []) @
               (if partner_zip partner \<noteq> []
                then [leaf ''PstCd'' (swedbank_sanitize_text (partner_zip partner) 16 True)]
                else []) @
               (if partner_city partner \<noteq> []
                then [leaf ''TwnNm'' (swedbank_sanitize_text (partner_city partner) 35 True)]
                else []) @
               (case partner_country_id partner of
                  None \<Rightarrow> [] | Some c \<Rightarrow> [leaf ''Ctry'' (country_code c)]))])"

definition swedbank_get_cdtr_acct :: "account_payment \<Rightarrow> xml option" where
  "swedbank_get_cdtr_acct payment =
     (case pay_partner_bank_id payment of
        None \<Rightarrow> None
      | Some partner_bank \<Rightarrow>
          if pb_acc_number partner_bank = [] then None
          else
            (let acc_number = remove_char 0x2D (remove_char 0x20 (pb_acc_number partner_bank))
             in if pb_acc_type partner_bank = ustr ''iban''
                then Some (node ''CdtrAcct'' [node ''Id'' [leaf ''IBAN'' (py_upper acc_number)]])
                else
                  (let account_type = pb_swedbank_account_type partner_bank
                   in Some (node ''CdtrAcct''
                        [node ''Id''
                           [node ''Othr''
                              [leaf ''Id'' acc_number,
                               node ''SchmeNm''
                                 [if account_type = ustr ''bankgiro'' then leaf ''Prtry'' (ustr ''BGNR'')
                                  else if account_type = ustr ''plusgiro'' then leaf ''Cd'' (ustr ''BBAN'')
                                  else leaf ''Cd'' (ustr ''BBAN'')]]]]))))"

definition swedbank_get_rmt_inf :: "account_payment \<Rightarrow> xml option" where
  "swedbank_get_rmt_inf payment =
     (let communication = py_or (pay_ref payment) (py_or (pay_memo payment) [])
      in if communication = [] then None
         else Some (node ''RmtInf'' [leaf ''Ustrd'' (swedbank_sanitize_text communication 140 True)]))"

definition opt_list :: "'a option \<Rightarrow> 'a list" where
  "opt_list x = (case x of None \<Rightarrow> [] | Some v \<Rightarrow> [v])"

definition swedbank_get_cdt_trf_tx_inf :: "env \<Rightarrow> account_payment \<Rightarrow> xml" where
  "swedbank_get_cdt_trf_tx_inf e payment =
     (let instr_id = swedbank_sanitize_id
            (py_or (pay_name payment) (ustr ''PMT-'' @ string_of_nat (pay_id payment))) 35;
          end_to_end_id = swedbank_sanitize_id
            (py_or (pay_ref payment)
               (py_or (pay_name payment) (take 35 (uuid_str (env_uuid4 e (pay_id payment)))))) 35
      in node ''CdtTrfTxInf''
           ([node ''PmtId'' [leaf ''InstrId'' instr_id, leaf ''EndToEndId'' end_to_end_id],
             node ''Amt''
               [Elem ''InstdAmt'' [(''Ccy'', cur_name (pay_currency_id payment))]
                  (Some (fmt2 (pay_amount payment))) []]] @
            opt_list (swedbank_get_cdtr_agt payment) @
            [swedbank_get_cdtr payment] @
            opt_list (swedbank_get_cdtr_acct payment) @
            opt_list (swedbank_get_rmt_inf payment)))"

text \<open>
  \<open>_swedbank_get_pmt_inf\<close>; \<open>k\<close> is the number of the clock reading this block makes.
  \<open>payments[0]\<close> raises on an empty group.
\<close>

definition swedbank_get_pmt_inf ::
    "env \<Rightarrow> account_journal \<Rightarrow> nat \<Rightarrow> account_payment list \<Rightarrow> group_key \<Rightarrow> error + xml" where
  "swedbank_get_pmt_inf e self k payments group_key =
     (case payments of
        [] \<Rightarrow> Inl IndexError
      | first_payment # _ \<Rightarrow>
          (let exec_date = snd group_key;
               pmt_inf_id = swedbank_sanitize_id
                 (ustr ''PMTINF-'' @ string_of_nat (jrn_id self) @ ustr ''-'' @ env_now_compact e k) 35;
               ctrl_sum = sum_amounts payments;
               charge_bearer =
                 (if jrn_swedbank_service_level self = ustr ''SEPA'' then ustr ''SLEV''
                  else py_or (jrn_swedbank_charge_bearer self) (ustr ''SHAR''))
           in Inr (node ''PmtInf''
                ([leaf ''PmtInfId'' pmt_inf_id,
                  leaf ''PmtMtd'' (ustr ''TRF''),
                  leaf ''BtchBookg'' (ustr ''true''),
                  leaf ''NbOfTxs'' (string_of_nat (length payments)),
                  leaf ''CtrlSum'' (fmt2 ctrl_sum),
                  swedbank_get_pmt_tp_inf self first_payment,
                  leaf ''ReqdExctnDt'' exec_date,
                  swedbank_get_dbtr self,
                  swedbank_get_dbtr_acct self,
                  swedbank_get_dbtr_agt,
                  leaf ''ChrgBr'' charge_bearer] @
                 map (swedbank_get_cdt_trf_tx_inf e) payments))))"

text \<open>The loop over the groups: the first block that raises ends it.\<close>

fun pmt_inf_blocks ::
    "env \<Rightarrow> account_journal \<Rightarrow> nat \<Rightarrow> (group_key \<times> account_payment list) list \<Rightarrow> error + xml list" where
  "pmt_inf_blocks e self k [] = Inr []"
| "pmt_inf_blocks e self k ((group_key, group_payments) # rest) =
     (case swedbank_get_pmt_inf e self k group_payments group_key of
        Inl err \<Rightarrow> Inl err
      | Inr pmt_inf \<Rightarrow>
          (case pmt_inf_blocks e self (Suc k) rest of
             Inl err \<Rightarrow> Inl err
           | Inr others \<Rightarrow> Inr (pmt_inf # others)))"

definition pain_namespace :: ustring where
  "pain_namespace = ustr ''urn:iso:std:iso:20022:tech:xsd:pain.001.001.03''"

definition create_swedbank_credit_transfer ::
    "env \<Rightarrow> account_journal \<Rightarrow> account_payment list \<Rightarrow> error + document" where
  "create_swedbank_credit_transfer e self payments =
     (if jrn_swedbank_agreement_id self = []
      then Inl (UserError (ustr ''Please configure the Swedbank Agreement ID on journal '' @
                   [dquote] @ pct_s (jrn_name self) @ [dquote] @ ustr ''.''))
      else if jrn_bank_account_id self = None
      then Inl (UserError (ustr ''Please configure a bank account on journal '' @
                   [dquote] @ pct_s (jrn_name self) @ [dquote] @ ustr ''.''))
      else
        (case swedbank_validate_payments self payments of
           Inl err \<Rightarrow> Inl err
         | Inr _ \<Rightarrow>
             (let grp_hdr = swedbank_get_grp_hdr e self payments;
                  payment_groups = swedbank_group_payments e self payments
              in case pmt_inf_blocks e self 2 payment_groups of
                   Inl err \<Rightarrow> Inl err
                 | Inr pmt_infs \<Rightarrow>
                     Inr (Document
                            (ustr ''<?xml version='' @ [dquote] @ ustr ''1.0'' @ [dquote] @
                             ustr '' encoding='' @ [dquote] @ ustr ''UTF-8'' @ [dquote] @ ustr ''?>'' @ [0x0A])
                            [(None, pain_namespace),
                             (Some ''xsi'', ustr ''http://www.w3.org/2001/XMLSchema-instance'')]
                            (node ''Document''
                               [node ''CstmrCdtTrfInitn'' (grp_hdr # pmt_infs)])))))"

section \<open>Schema validation and the validated pipeline\<close>

definition swedbank_get_xsd_schema :: "env \<Rightarrow> xml_schema option" where
  "swedbank_get_xsd_schema e = (if \<not> env_xsd_exists e then None else env_xsd_load e)"

definition msg_schema_skipped :: ustring where
  "msg_schema_skipped = ustr ''Schema validation skipped - XSD not available''"

definition swedbank_validate_xml :: "env \<Rightarrow> document \<Rightarrow> bool \<times> ustring list" where
  "swedbank_validate_xml e xml_content =
     (case swedbank_get_xsd_schema e of
        None \<Rightarrow> (True, [msg_schema_skipped])
      | Some schema \<Rightarrow>
          (case env_fromstring_error e xml_content of
             Some err \<Rightarrow> (False, [ustr ''XML Syntax Error: '' @ err])
           | None \<Rightarrow>
               if schema_validate schema xml_content then (True, [])
               else (False, schema_error_log schema xml_content)))"

text \<open>\<open>'\n'.join(lines)\<close>.\<close>

fun join_lines :: "ustring list \<Rightarrow> ustring" where
  "join_lines [] = []"
| "join_lines [l] = l"
| "join_lines (l # ls) = l @ [0x0A] @ join_lines ls"

definition create_swedbank_credit_transfer_validated ::
    "env \<Rightarrow> account_journal \<Rightarrow> account_payment list \<Rightarrow> error + document" where
  "create_swedbank_credit_transfer_validated e self payments =
     (case create_swedbank_credit_transfer e self payments of
        Inl err \<Rightarrow> Inl err
      | Inr xml_content \<Rightarrow>
          (let (is_valid, errors) = swedbank_validate_xml e xml_content
           in if \<not> is_valid
              then Inl (UserError
                     (ustr ''Generated XML failed Swedbank schema validation:'' @ [0x0A] @
                      join_lines (take 10 errors) @
                      (if length errors > 10
                       then [0x0A] @ ustr ''... and '' @ string_of_nat (length errors - 10) @
                            ustr '' more errors''
                       else [])))
              else Inr xml_content))"

section \<open>The payment record (\<open>account_payment.py\<close>)\<close>





section \<open>Reading a document\<close>



section \<open>The records of \<open>test_swedbank_xml.py\<close>\<close>

text \<open>
  The company, the journal, the partner and the bank accounts that \<open>setUpClass\<close>
  creates, and payments on them. \<open>ex_partner_bank_bg\<close> is the account with number
  \<open>12345678\<close> and clearing code \<open>9900\<close>, with the type the compute method gives it.
\<close>

definition ex_env :: env where
  "ex_env =
     \<lparr>env_now_compact = (\<lambda>k. ustr ''20240102030405000006''),
      env_now_iso = (\<lambda>k. ustr ''2024-01-02T03:04:05''),
      env_today = ustr ''2024-01-02'',
      env_uuid4 = (\<lambda>k. 0),
      env_xsd_exists = False,
      env_xsd_load = None,
      env_fromstring_error = (\<lambda>d. None)\<rparr>"

definition ex_company :: res_company where
  "ex_company =
     \<lparr>company_ident = 1, company_name = ustr ''Test Company AB'',
      company_country_id = Some \<lparr>country_code = ustr ''SE''\<rparr>,
      company_street = ustr ''Testgatan 1'', company_city = ustr ''Stockholm'',
      company_zip = ustr ''11122'', company_currency_id = \<lparr>cur_name = ustr ''SEK''\<rparr>\<rparr>"

definition ex_company_bank :: res_partner_bank where
  "ex_company_bank =
     \<lparr>pb_id = 1, pb_acc_number = ustr ''SE4550000000058398257466'', pb_acc_type = ustr ''iban'',
      pb_bank_id = None, pb_currency_id = None, pb_swedbank_clearing_code = [],
      pb_swedbank_account_type = ustr ''iban''\<rparr>"

definition ex_journal :: account_journal where
  "ex_journal =
     \<lparr>jrn_id = 7, jrn_name = ustr ''Swedbank'',
      jrn_swedbank_agreement_id = ustr ''123456789012A001'',
      jrn_bank_account_id = Some ex_company_bank,
      jrn_swedbank_service_level = ustr ''NURG'',
      jrn_swedbank_category_purpose = ustr ''SUPP'',
      jrn_swedbank_charge_bearer = ustr ''SHAR'',
      jrn_company_id = ex_company, jrn_currency_id = None\<rparr>"

definition ex_partner :: res_partner where
  "ex_partner =
     \<lparr>partner_name = ustr ''Test Supplier AB'', partner_street = ustr ''Leverantorsgatan 5'',
      partner_zip = ustr ''41101'', partner_city = ustr ''Goteborg'',
      partner_country_id = Some \<lparr>country_code = ustr ''SE''\<rparr>\<rparr>"

definition ex_partner_bank_bg :: res_partner_bank where
  "ex_partner_bank_bg = recompute_account_type
     \<lparr>pb_id = 2, pb_acc_number = ustr ''12345678'', pb_acc_type = ustr ''bank'',
      pb_bank_id = None, pb_currency_id = None, pb_swedbank_clearing_code = ustr ''9900'',
      pb_swedbank_account_type = []\<rparr>"

definition ex_payment :: account_payment where
  "ex_payment =
     \<lparr>pay_id = 11, pay_name = ustr ''PBNK1/2024/00001'', pay_partner_id = Some ex_partner,
      pay_amount = 100000, pay_currency_id = \<lparr>cur_name = ustr ''SEK''\<rparr>,
      pay_date = Some (ustr ''2024-01-15''), pay_ref = ustr ''INV-001'', pay_memo = [],
      pay_partner_bank_id = Some ex_partner_bank_bg,
      pay_swedbank_end_to_end_id = [], pay_swedbank_service_level = [],
      pay_swedbank_category_purpose = []\<rparr>"

text \<open>
  The same account with the type \<open>bankgiro\<close> written into the stored field, as the
  \<open>create\<close> call of \<open>setUpClass\<close> passes it, and the payment to it.
\<close>

definition ex_partner_bank_bg_declared :: res_partner_bank where
  "ex_partner_bank_bg_declared =
     \<lparr>pb_id = 2, pb_acc_number = ustr ''12345678'', pb_acc_type = ustr ''bank'',
      pb_bank_id = None, pb_currency_id = None, pb_swedbank_clearing_code = ustr ''9900'',
      pb_swedbank_account_type = ustr ''bankgiro''\<rparr>"

definition ex_payment_declared :: account_payment where
  "ex_payment_declared = ex_payment\<lparr>pay_partner_bank_id := Some ex_partner_bank_bg_declared\<rparr>"

text \<open>A SEPA journal and a payment in EUR to the same account, which is not an IBAN.\<close>

definition ex_sepa_journal :: account_journal where
  "ex_sepa_journal = ex_journal\<lparr>jrn_swedbank_service_level := ustr ''SEPA''\<rparr>"

definition ex_eur_payment :: account_payment where
  "ex_eur_payment = ex_payment\<lparr>pay_currency_id := \<lparr>cur_name = ustr ''EUR''\<rparr>\<rparr>"

text \<open>A payment whose own service level and category purpose are set.\<close>

definition ex_urgent_payment :: account_payment where
  "ex_urgent_payment =
     ex_payment\<lparr>pay_swedbank_service_level := ustr ''URGP'',
                pay_swedbank_category_purpose := ustr ''TREA''\<rparr>"

text \<open>A payment without partner, and a payment of amount zero.\<close>

definition ex_payment_no_partner :: account_payment where
  "ex_payment_no_partner =
     ex_payment\<lparr>pay_id := 12, pay_name := ustr ''PAY-A'', pay_partner_id := None\<rparr>"

definition ex_payment_zero :: account_payment where
  "ex_payment_zero = ex_payment\<lparr>pay_id := 13, pay_name := ustr ''PAY-B'', pay_amount := 0\<rparr>"

text \<open>A second payment for the same journal, with a later execution date.\<close>

definition ex_payment_later :: account_payment where
  "ex_payment_later =
     ex_payment\<lparr>pay_id := 14, pay_name := ustr ''PBNK1/2024/00002'', pay_amount := 25050,
                pay_date := Some (ustr ''2024-01-20'')\<rparr>"

section \<open>Predicates used to state the claims\<close>



section \<open>Properties of the sanitizer\<close>

lemma contains_dslash_iff:
  "contains_dslash s \<longleftrightarrow> (\<exists>p q. s = p @ [slash, slash] @ q)"
proof (induction s rule: contains_dslash.induct)
  case (1 a b xs)
  show ?case
  proof
    assume "contains_dslash (a # b # xs)"
    then consider "a = slash \<and> b = slash" | "contains_dslash (b # xs)" by auto
    then show "\<exists>p q. a # b # xs = p @ [slash, slash] @ q"
    proof cases
      case 1
      then have "a # b # xs = [] @ [slash, slash] @ xs" by simp
      then show ?thesis by blast
    next
      case 2
      with "1.IH" obtain p q where "b # xs = p @ [slash, slash] @ q" by blast
      then have "a # b # xs = (a # p) @ [slash, slash] @ q" by simp
      then show ?thesis by blast
    qed
  next
    assume "\<exists>p q. a # b # xs = p @ [slash, slash] @ q"
    then obtain p q where pq: "a # b # xs = p @ [slash, slash] @ q" by blast
    show "contains_dslash (a # b # xs)"
    proof (cases p)
      case Nil
      with pq show ?thesis by simp
    next
      case (Cons c p')
      with pq have "b # xs = p' @ [slash, slash] @ q" by simp
      then have "contains_dslash (b # xs)" using "1.IH" by blast
      then show ?thesis by simp
    qed
  qed
qed (auto simp: Cons_eq_append_conv)

lemma collapse_no_dslash: "\<not> contains_dslash (collapse_slashes s)"
  by (induction s rule: collapse_slashes.induct) (simp add: collapse_slashes.simps)

lemma collapse_id: "\<not> contains_dslash s \<Longrightarrow> collapse_slashes s = s"
  by (simp add: collapse_slashes.simps)

lemma take_no_dslash: "\<not> contains_dslash s \<Longrightarrow> \<not> contains_dslash (take n s)"
proof
  assume n: "\<not> contains_dslash s" and "contains_dslash (take n s)"
  then obtain p q where "take n s = p @ [slash, slash] @ q"
    by (auto simp: contains_dslash_iff)
  then have "s = p @ [slash, slash] @ (q @ drop n s)"
    by (metis append_take_drop_id append.assoc)
  with n show False unfolding contains_dslash_iff by blast
qed

lemma contains_dslash_infix:
  "contains_dslash b \<Longrightarrow> contains_dslash (a @ b @ c)"
proof -
  assume "contains_dslash b"
  then obtain p q where "b = p @ [slash, slash] @ q"
    by (auto simp: contains_dslash_iff)
  then have "a @ b @ c = (a @ p) @ [slash, slash] @ (q @ c)" by simp
  then show ?thesis unfolding contains_dslash_iff by blast
qed

lemma strip_slash_drop:
  "dropWhile (\<lambda>c. c = slash) s =
     strip_slash s @ rev (takeWhile (\<lambda>c. c = slash) (rev (dropWhile (\<lambda>c. c = slash) s)))"
proof -
  let ?P = "\<lambda>c. c = slash"
  let ?d = "dropWhile ?P s"
  have "rev (dropWhile ?P (rev ?d)) @ rev (takeWhile ?P (rev ?d))
          = rev (takeWhile ?P (rev ?d) @ dropWhile ?P (rev ?d))"
    by (simp only: rev_append)
  also have "\<dots> = rev (rev ?d)"
    by (simp only: takeWhile_dropWhile_id)
  also have "\<dots> = ?d" by (simp only: rev_rev_ident)
  finally have e: "rev (dropWhile ?P (rev ?d)) @ rev (takeWhile ?P (rev ?d)) = ?d" .
  show ?thesis unfolding strip_slash_def by (rule e [symmetric])
qed

lemma strip_slash_decomp:
  "s = takeWhile (\<lambda>c. c = slash) s @ strip_slash s @
       rev (takeWhile (\<lambda>c. c = slash) (rev (dropWhile (\<lambda>c. c = slash) s)))"
proof -
  have "s = takeWhile (\<lambda>c. c = slash) s @ dropWhile (\<lambda>c. c = slash) s" by simp
  then show ?thesis using strip_slash_drop [of s] by simp
qed

lemma strip_slash_no_dslash:
  "\<not> contains_dslash s \<Longrightarrow> \<not> contains_dslash (strip_slash s)"
proof
  assume n: "\<not> contains_dslash s" and c: "contains_dslash (strip_slash s)"
  have "contains_dslash s"
    by (subst strip_slash_decomp [of s]) (rule contains_dslash_infix [OF c])
  with n show False by simp
qed

lemma strip_slash_length: "length (strip_slash s) \<le> length s"
proof -
  have "length (strip_slash s) \<le> length (dropWhile (\<lambda>c. c = slash) s)"
    unfolding strip_slash_def length_rev
    using length_dropWhile_le [of "\<lambda>c. c = slash" "rev (dropWhile (\<lambda>c. c = slash) s)"]
    by simp
  also have "\<dots> \<le> length s" by (rule length_dropWhile_le)
  finally show ?thesis .
qed

lemma strip_slash_set: "set (strip_slash s) \<subseteq> set s"
proof -
  have "set (strip_slash s) \<subseteq> set (dropWhile (\<lambda>c. c = slash) s)"
    unfolding strip_slash_def set_rev
    using set_dropWhileD by fastforce
  then show ?thesis using set_dropWhileD by fastforce
qed

lemma startswith_slash_dropWhile:
  "\<not> startswith_slash (dropWhile (\<lambda>c. c = slash) s)"
  by (induction s) (auto simp: startswith_slash_def)

lemma strip_slash_not_endswith: "\<not> endswith_slash (strip_slash s)"
  unfolding endswith_slash_def strip_slash_def rev_rev_ident
  by (rule startswith_slash_dropWhile)

lemma strip_slash_not_startswith: "\<not> startswith_slash (strip_slash s)"
proof (cases "strip_slash s")
  case Nil
  then show ?thesis by (simp add: startswith_slash_def)
next
  case (Cons x xs)
  let ?d = "dropWhile (\<lambda>c. c = slash) s"
  have ne: "?d \<noteq> []"
    by (subst strip_slash_drop) (simp add: Cons)
  have "hd ?d = x"
    by (subst strip_slash_drop) (simp add: Cons)
  moreover from ne have "hd ?d \<noteq> slash"
    using hd_dropWhile [of "\<lambda>c. c = slash" s] by blast
  ultimately have "x \<noteq> slash" by simp
  with Cons show ?thesis by (simp add: startswith_slash_def)
qed

lemma strip_slash_id:
  "\<not> startswith_slash s \<Longrightarrow> \<not> endswith_slash s \<Longrightarrow> strip_slash s = s"
proof -
  assume a: "\<not> startswith_slash s" and b: "\<not> endswith_slash s"
  from a have 1: "dropWhile (\<lambda>c. c = slash) s = s"
    by (cases s) (auto simp: startswith_slash_def)
  from b have 2: "dropWhile (\<lambda>c. c = slash) (rev s) = rev s"
    by (cases "rev s") (auto simp: endswith_slash_def startswith_slash_def)
  show ?thesis by (simp add: strip_slash_def 1 2)
qed

lemma sanitize_text_no_dslash:
  "\<not> contains_dslash (swedbank_sanitize_text t n ext)"
  by (simp add: swedbank_sanitize_text_def take_no_dslash collapse_no_dslash)

lemma sanitize_text_length: "length (swedbank_sanitize_text t n ext) \<le> n"
  by (simp add: swedbank_sanitize_text_def)

lemma sanitize_id_eq_strip:
  "swedbank_sanitize_id t n = strip_slash (swedbank_sanitize_text t n False)"
proof (cases "t = []")
  case True
  then show ?thesis
    by (simp add: swedbank_sanitize_id_def swedbank_sanitize_text_def strip_slash_def)
next
  case False
  let ?x = "swedbank_sanitize_text t n False"
  have nd: "\<not> contains_dslash (strip_slash ?x)"
    by (rule strip_slash_no_dslash) (rule sanitize_text_no_dslash)
  have "length (strip_slash ?x) \<le> n"
    using strip_slash_length [of ?x] sanitize_text_length [of t n False] by linarith
  with nd False show ?thesis
    by (simp add: swedbank_sanitize_id_def collapse_id)
qed


lemma table_values_latin_all:
  "list_all (\<lambda>(k, r). set r \<subseteq> SWEDBANK_LATIN_CHARS \<and> set (py_upper r) \<subseteq> SWEDBANK_LATIN_CHARS)
     CHAR_REPLACEMENT_MAP"
  by (simp add: CHAR_REPLACEMENT_MAP_def SWEDBANK_LATIN_CHARS_def ustr_def py_upper_def)

lemma table_values_latin:
  assumes "map_of CHAR_REPLACEMENT_MAP k = Some r"
  shows "set r \<subseteq> SWEDBANK_LATIN_CHARS" and "set (py_upper r) \<subseteq> SWEDBANK_LATIN_CHARS"
proof -
  from assms have "(k, r) \<in> set CHAR_REPLACEMENT_MAP" by (rule map_of_SomeD)
  with table_values_latin_all
  have "set r \<subseteq> SWEDBANK_LATIN_CHARS \<and> set (py_upper r) \<subseteq> SWEDBANK_LATIN_CHARS"
    unfolding list_all_iff by blast
  then show "set r \<subseteq> SWEDBANK_LATIN_CHARS" and "set (py_upper r) \<subseteq> SWEDBANK_LATIN_CHARS"
    by simp_all
qed

lemma sanitize_char_latin: "set (sanitize_char False c) \<subseteq> SWEDBANK_LATIN_CHARS"
proof (cases "c \<in> SWEDBANK_LATIN_CHARS")
  case True
  then show ?thesis by (simp add: sanitize_char_def)
next
  case notin: False
  show ?thesis
  proof (cases "map_of CHAR_REPLACEMENT_MAP [c]")
    case (Some r)
    with notin show ?thesis
      using table_values_latin(1) [OF Some] by (simp add: sanitize_char_def)
  next
    case None
    show ?thesis
    proof (cases "map_of CHAR_REPLACEMENT_MAP (py_lower c)")
      case none2: None
      with None notin show ?thesis by (simp add: sanitize_char_def)
    next
      case (Some r)
      with None notin show ?thesis
        using table_values_latin [OF Some] by (simp add: sanitize_char_def)
    qed
  qed
qed

lemma sanitize_char_id:
  "c \<in> SWEDBANK_LATIN_CHARS \<Longrightarrow> sanitize_char ext c = [c]"
  by (simp add: sanitize_char_def)

lemma replace_dslash_set: "set (replace_dslash s) \<subseteq> set s"
  by (induction s rule: replace_dslash.induct) auto

lemma collapse_slashes_set: "set (collapse_slashes s) \<subseteq> set s"
proof (induction s rule: collapse_slashes.induct)
  case (1 s)
  show ?case
  proof (cases "contains_dslash s")
    case True
    with 1 have "set (collapse_slashes (replace_dslash s)) \<subseteq> set (replace_dslash s)" by simp
    with True show ?thesis
      using replace_dslash_set [of s] by (subst collapse_slashes.simps) auto
  next
    case False
    then show ?thesis by (simp add: collapse_slashes.simps)
  qed
qed

lemma sanitize_text_latin:
  "set (swedbank_sanitize_text t n False) \<subseteq> SWEDBANK_LATIN_CHARS"
proof -
  have "set (concat (map (sanitize_char False) t)) \<subseteq> SWEDBANK_LATIN_CHARS"
    using sanitize_char_latin by auto
  then have "set (collapse_slashes (concat (map (sanitize_char False) t))) \<subseteq> SWEDBANK_LATIN_CHARS"
    using collapse_slashes_set by blast
  then show ?thesis
    unfolding swedbank_sanitize_text_def
    using set_take_subset [of n "collapse_slashes (concat (map (sanitize_char False) t))"]
    by auto
qed

lemma sanitize_id_latin: "set (swedbank_sanitize_id t n) \<subseteq> SWEDBANK_LATIN_CHARS"
  unfolding sanitize_id_eq_strip
  using strip_slash_set [of "swedbank_sanitize_text t n False"] sanitize_text_latin [of t n]
  by blast

lemma concat_sanitize_id:
  "set s \<subseteq> SWEDBANK_LATIN_CHARS \<Longrightarrow> concat (map (sanitize_char ext) s) = s"
  by (induction s) (simp_all add: sanitize_char_id)

lemma sanitize_id_fixpoint:
  assumes "set s \<subseteq> SWEDBANK_LATIN_CHARS" and "\<not> contains_dslash s" and "length s \<le> n"
    and "\<not> startswith_slash s" and "\<not> endswith_slash s"
  shows "swedbank_sanitize_id s n = s"
proof -
  have "swedbank_sanitize_text s n False = s"
    using assms by (simp add: swedbank_sanitize_text_def concat_sanitize_id collapse_id)
  then show ?thesis
    using assms by (simp add: sanitize_id_eq_strip strip_slash_id)
qed

lemma swedish_not_latin: "SWEDBANK_LATIN_CHARS \<inter> SWEDISH_LOCAL_CHARS = {}"
  by (simp add: SWEDBANK_LATIN_CHARS_def SWEDISH_LOCAL_CHARS_def ustr_def)

section \<open>Printing and reading amounts\<close>









section \<open>Properties of the grouping\<close>















section \<open>The shape of the payment blocks\<close>









section \<open>Evaluation on the example records\<close>

lemmas build_defs = create_swedbank_credit_transfer_def swedbank_group_payments_def group_step_def
  recordset_union_def swedbank_get_grp_hdr_def swedbank_get_pmt_inf_def swedbank_get_pmt_tp_inf_def
  swedbank_get_dbtr_def swedbank_get_dbtr_acct_def swedbank_get_dbtr_agt_def
  swedbank_get_cdt_trf_tx_inf_def swedbank_get_cdtr_agt_def swedbank_get_cdtr_def
  swedbank_get_cdtr_acct_def swedbank_get_rmt_inf_def opt_list_def node_def leaf_def
  get_swedbank_creditor_agent_clearing_def compute_swedbank_account_type_def
  recompute_account_type_def py_or_def sum_amounts_def remove_char_def digits_between_def
  is_digit_def Let_def

lemmas example_defs = ex_journal_def ex_payment_def ex_partner_def ex_partner_bank_bg_def
  ex_company_def ex_company_bank_def ex_sepa_journal_def ex_eur_payment_def
  ex_urgent_payment_def ex_payment_no_partner_def ex_payment_zero_def ex_payment_later_def ex_partner_bank_bg_declared_def ex_payment_declared_def

lemma pmt_tp_inf_independent:
  "swedbank_get_pmt_tp_inf self p = swedbank_get_pmt_tp_inf self q"
  by (simp add: swedbank_get_pmt_tp_inf_def)


text \<open>
  With the stored type \<open>bankgiro\<close> the scheme of the creditor account is
  \<open>Prtry\<close> = \<open>BGNR\<close>, and the compute method types the number \<open>12345678\<close> as
  bankgiro when no clearing code is set.
\<close>

lemma declared_bankgiro_scheme:
  "\<exists>doc. create_swedbank_credit_transfer e ex_journal [ex_payment_declared] = Inr doc \<and>
    findall [''CstmrCdtTrfInitn'', ''PmtInf'', ''CdtTrfTxInf'', ''CdtrAcct'', ''Id'', ''Othr'', ''SchmeNm''] (doc_root doc)
       = [node ''SchmeNm'' [leaf ''Prtry'' (ustr ''BGNR'')]]"
  by (simp add: build_defs example_defs ustr_def)

lemma bankgiro_without_clearing_code:
  "compute_swedbank_account_type (ex_partner_bank_bg_declared\<lparr>pb_swedbank_clearing_code := []\<rparr>)
     = ustr ''bankgiro''"
  by (simp add: build_defs example_defs ustr_def)

section \<open>Properties of the validators\<close>






section \<open>Properties of the end-to-end ID\<close>















section \<open>The claims\<close>

text \<open>
  Claim C1. For every batch validated by the payment validator that the document builder
  calls, if the journal's service level is SEPA and a payment names a creditor bank account
  whose type is not IBAN, validation fails with an error naming that payment and no
  document is produced.

  The validator of the builder has no IBAN check; the validator of the batch has it. On a
  SEPA journal with one payment in EUR to an account of type \<open>bank\<close>, the builder's
  validator passes and the builder returns a document, while \<open>_swedbank_validate_batch\<close>
  rejects the same payment with the IBAN error.
\<close>

theorem C1_builder_validator_accepts_non_iban_under_sepa:
  "(\<exists>doc. create_swedbank_credit_transfer e ex_sepa_journal [ex_eur_payment] = Inr doc) \<and>
   swedbank_validate_payments ex_sepa_journal [ex_eur_payment] = Inr () \<and>
   (\<exists>bank. pay_partner_bank_id ex_eur_payment = Some bank \<and> pb_acc_type bank \<noteq> ustr ''iban'') \<and>
   swedbank_validate_batch
       \<lparr>batch_journal_id = ex_sepa_journal, batch_payment_ids = [ex_eur_payment]\<rparr>
     = Inl (UserError (msg_sepa_iban (pay_name ex_eur_payment)))"
  by (simp add: build_defs example_defs swedbank_validate_batch_def ustr_def)

text \<open>
  Claim C2. For the journal with agreement ID \<open>123456789012A001\<close> and debtor IBAN
  \<open>SE4550000000058398257466\<close> and one payment of \<open>1000.00\<close> to a partner whose bank
  account has number \<open>12345678\<close> and clearing code \<open>9900\<close>, generation succeeds, the
  root is in the pain.001.001.03 namespace, there is one \<open>PmtInf\<close> and one
  \<open>CdtTrfTxInf\<close> with \<open>InstdAmt\<close> text \<open>1000.00\<close>, and the creditor account scheme
  is \<open>Prtry\<close> = \<open>BGNR\<close>.

  With the account type that \<open>_compute_swedbank_account_type\<close> gives this account, all of
  it holds but the last part: a clearing code is set, so the type is \<open>bban\<close> and the scheme
  element is \<open>Cd\<close> = \<open>BBAN\<close>.
\<close>

theorem C2_scenario_creditor_scheme_is_bban:
  "pb_swedbank_account_type ex_partner_bank_bg = ustr ''bban'' \<and>
   compute_swedbank_account_type ex_partner_bank_bg = ustr ''bban'' \<and>
   (\<exists>doc. create_swedbank_credit_transfer e ex_journal [ex_payment] = Inr doc \<and>
    xml_tag (doc_root doc) = ''Document'' \<and>
    map_of (doc_nsmap doc) None = Some (ustr ''urn:iso:std:iso:20022:tech:xsd:pain.001.001.03'') \<and>
    length (findall [''CstmrCdtTrfInitn'', ''PmtInf''] (doc_root doc)) = 1 \<and>
    length (findall [''CstmrCdtTrfInitn'', ''PmtInf'', ''CdtTrfTxInf''] (doc_root doc)) = 1 \<and>
    map xml_text (findall [''CstmrCdtTrfInitn'', ''PmtInf'', ''CdtTrfTxInf'', ''Amt'', ''InstdAmt''] (doc_root doc))
       = [Some (ustr ''1000.00'')] \<and>
    findall [''CstmrCdtTrfInitn'', ''PmtInf'', ''CdtTrfTxInf'', ''CdtrAcct'', ''Id'', ''Othr'', ''SchmeNm''] (doc_root doc)
       = [node ''SchmeNm'' [leaf ''Cd'' (ustr ''BBAN'')]])"
  by (simp add: build_defs example_defs ustr_def fmt2_def string_of_nat.simps pain_namespace_def)

text \<open>
  Claim C3. For every payment whose own service level (or category purpose) is set, the
  \<open>PmtTpInf\<close> block of its group carries that code; the journal's default is used only
  when the payment leaves the field unset.

  \<open>_swedbank_get_pmt_tp_inf\<close> reads the journal only. For a payment with service level
  \<open>URGP\<close> and category purpose \<open>TREA\<close> on a journal with \<open>NURG\<close> and \<open>SUPP\<close>,
  the document carries \<open>NURG\<close> and \<open>SUPP\<close>.
\<close>

theorem C3_pmt_tp_inf_carries_journal_level:
  "pay_swedbank_service_level ex_urgent_payment = ustr ''URGP'' \<and>
   pay_swedbank_category_purpose ex_urgent_payment = ustr ''TREA'' \<and>
   (\<exists>doc. create_swedbank_credit_transfer e ex_journal [ex_urgent_payment] = Inr doc \<and>
      map xml_text (findall [''CstmrCdtTrfInitn'', ''PmtInf'', ''PmtTpInf'', ''SvcLvl'', ''Cd''] (doc_root doc))
        = [Some (ustr ''NURG'')] \<and>
      map xml_text (findall [''CstmrCdtTrfInitn'', ''PmtInf'', ''PmtTpInf'', ''CtgyPurp'', ''Cd''] (doc_root doc))
        = [Some (ustr ''SUPP'')])"
  by (simp add: build_defs example_defs ustr_def)



text \<open>
  Claim C5. For every input string \<open>t\<close>, every maximum length \<open>n\<close> and either setting
  of the extended-letter flag, the output of \<open>_swedbank_sanitize_text\<close> contains no
  occurrence of the substring \<open>//\<close> and has length at most \<open>n\<close>.
\<close>

theorem C5_sanitize_text_no_double_slash_bounded:
  "\<not> (\<exists>p q. swedbank_sanitize_text t n ext = p @ [slash, slash] @ q) \<and> length (swedbank_sanitize_text t n ext) \<le> n"
proof -
  have "\<not> contains_dslash (swedbank_sanitize_text t n ext)"
    by (simp add: swedbank_sanitize_text_def take_no_dslash collapse_no_dslash)
  then show ?thesis by (simp add: contains_dslash_iff swedbank_sanitize_text_def)
qed

text \<open>
  Claim C6. For every input string \<open>t\<close> and maximum length \<open>n\<close>, the output of
  \<open>_swedbank_sanitize_id\<close> neither starts nor ends with \<open>/\<close>, and every character of
  it belongs to the Latin base set; in particular none of the Swedish extended letters
  survives.
\<close>

theorem C6_sanitize_id_latin_no_edge_slash:
  "\<not> startswith_slash (swedbank_sanitize_id t n) \<and>
   \<not> endswith_slash (swedbank_sanitize_id t n) \<and>
   list_all (\<lambda>c. c \<in> SWEDBANK_LATIN_CHARS \<and> c \<notin> SWEDISH_LOCAL_CHARS) (swedbank_sanitize_id t n)"
proof -
  have "list_all (\<lambda>c. c \<in> SWEDBANK_LATIN_CHARS \<and> c \<notin> SWEDISH_LOCAL_CHARS) (swedbank_sanitize_id t n)"
    unfolding list_all_iff using sanitize_id_latin [of t n] swedish_not_latin by blast
  then show ?thesis
    by (simp add: sanitize_id_eq_strip strip_slash_not_startswith strip_slash_not_endswith)
qed




text \<open>
  Claim C8. Whenever the XSD schema cannot be located or cannot be parsed,
  \<open>swedbank_validate_xml\<close> returns valid together with exactly one advisory message, and
  \<open>create_swedbank_credit_transfer_validated\<close> returns what the builder returns: the
  generated document, without an error of its own.
\<close>

theorem C8_missing_schema_is_advisory:
  assumes "\<not> env_xsd_exists e \<or> env_xsd_load e = None"
  shows "swedbank_validate_xml e xml_content = (True, [msg_schema_skipped]) \<and>
         create_swedbank_credit_transfer_validated e self payments
           = create_swedbank_credit_transfer e self payments"
proof -
  from assms have none: "swedbank_get_xsd_schema e = None"
    by (auto simp: swedbank_get_xsd_schema_def)
  then have v: "swedbank_validate_xml e x = (True, [msg_schema_skipped])" for x
    by (simp add: swedbank_validate_xml_def)
  show ?thesis
    by (simp add: v create_swedbank_credit_transfer_validated_def split: sum.splits)
qed

text \<open>No schema file, and the example payment: the validated pipeline returns a document.\<close>
theorem C8_missing_schema_is_advisory_witness:
  "\<not> env_xsd_exists ex_env \<and>
   swedbank_validate_xml ex_env (Document [] [] (node ''Document'' [])) = (True, [msg_schema_skipped]) \<and>
   (\<exists>doc. create_swedbank_credit_transfer_validated ex_env ex_journal [ex_payment] = Inr doc)"
proof -
  have h: "\<not> env_xsd_exists ex_env \<or> env_xsd_load ex_env = None"
    by (simp add: ex_env_def)
  have c: "\<exists>doc. create_swedbank_credit_transfer ex_env ex_journal [ex_payment] = Inr doc"
    by (simp add: build_defs example_defs ustr_def)
  show ?thesis
    using C8_missing_schema_is_advisory [OF h, of "Document [] [] (node ''Document'' [])" ex_journal "[ex_payment]"] c
    by (simp add: ex_env_def)
qed

text \<open>
  Claim C9. The identifier sanitizer is idempotent: applying \<open>_swedbank_sanitize_id\<close>
  with the same \<open>n\<close> to its own output returns that output unchanged.
\<close>

theorem C9_sanitize_id_idempotent:
  "swedbank_sanitize_id (swedbank_sanitize_id t n) n = swedbank_sanitize_id t n"
proof (rule sanitize_id_fixpoint)
  show "set (swedbank_sanitize_id t n) \<subseteq> SWEDBANK_LATIN_CHARS" by (rule sanitize_id_latin)
  show "\<not> contains_dslash (swedbank_sanitize_id t n)"
    unfolding sanitize_id_eq_strip
    by (rule strip_slash_no_dslash) (rule sanitize_text_no_dslash)
  show "length (swedbank_sanitize_id t n) \<le> n"
    unfolding sanitize_id_eq_strip
    using strip_slash_length [of "swedbank_sanitize_text t n False"] sanitize_text_length [of t n False]
    by linarith
  show "\<not> startswith_slash (swedbank_sanitize_id t n)"
    unfolding sanitize_id_eq_strip by (rule strip_slash_not_startswith)
  show "\<not> endswith_slash (swedbank_sanitize_id t n)"
    unfolding sanitize_id_eq_strip by (rule strip_slash_not_endswith)
qed



end
